theory Spec2Isabelle
  imports Complex_Main
begin

section \<open>JSON values and JSON text\<close>

text \<open>
  The activity log of the CodeDAO dashboard SDK keeps JSON in one \<^verbatim>\<open>localStorage\<close>
  slot. A JavaScript value that JSON can represent is a \<open>json\<close>: a number is a rational
  (floating point is not modelled), a string is a \<open>string\<close>, an object is the list of its
  own properties, read with \<open>map_of\<close> (the first binding of a name is the property).
\<close>

datatype json =
    JNull
  | JBool bool
  | JNum rat
  | JStr string
  | JArr "json list"
  | JObj "(string \<times> json) list"

text \<open>
  A string that holds serialized data is represented by what \<^verbatim>\<open>JSON.parse\<close> makes of it:
  \<open>Json v\<close> is any well-formed JSON text that denotes \<open>v\<close> (pretty-printed or not),
  \<open>Garbled\<close> is a non-empty string that is not JSON, \<open>Empty\<close> is the empty string (the
  one falsy string of JavaScript). \<^verbatim>\<open>JSON.parse\<close> throws a SyntaxError on the last two.
\<close>

datatype jsontext = Empty | Garbled | Json json

datatype error = SyntaxError | TypeError | Unmodelled

definition JSON_parse :: "jsontext \<Rightarrow> error + json" where
  "JSON_parse t = (case t of Json v \<Rightarrow> Inr v | _ \<Rightarrow> Inl SyntaxError)"

text \<open>
  \<^verbatim>\<open>JSON.stringify\<close> applied to a value that \<^verbatim>\<open>JSON.parse\<close> returned: it writes text
  that denotes the value. (On any other value of the program it is
  \<open>JSON_stringify_value\<close> below.)
\<close>

definition JSON_stringify :: "json \<Rightarrow> jsontext" where
  "JSON_stringify v = Json v"

fun is_array :: "json \<Rightarrow> bool" where
  "is_array (JArr xs) = True"
| "is_array _ = False"

fun elements :: "json \<Rightarrow> json list" where
  "elements (JArr xs) = xs"
| "elements _ = []"

section \<open>JavaScript values in memory\<close>

text \<open>
  The arguments of \<^verbatim>\<open>log\<close> are values of the running program, and not all of them are
  JSON: a number may be \<^verbatim>\<open>NaN\<close> or infinite, and a value may be \<^verbatim>\<open>undefined\<close>, a
  function or a BigInt. A \<open>jsvalue\<close> is such a value; an object is again the list of its
  own properties, one of which may hold \<^verbatim>\<open>undefined\<close>. An object or an array may also
  contain itself: \<open>VCircular\<close> stands, inside it, for a reference back to it or to
  one that encloses it. Symbols, accessor properties, proxies and objects with a
  \<^verbatim>\<open>toJSON\<close> method are not modelled.
\<close>

datatype number = Finite rat | NaN | Infinity | NegInfinity

datatype jsvalue =
    VUndefined
  | VNull
  | VBool bool
  | VNum number
  | VStr string
  | VArr "jsvalue list"
  | VObj "(string \<times> jsvalue) list"
  | VFunction
  | VBigInt int
  | VCircular

text \<open>What \<^verbatim>\<open>JSON.parse\<close> returns is a value in memory.\<close>

fun of_json :: "json \<Rightarrow> jsvalue" where
  "of_json JNull = VNull"
| "of_json (JBool b) = VBool b"
| "of_json (JNum r) = VNum (Finite r)"
| "of_json (JStr s) = VStr s"
| "of_json (JArr xs) = VArr (map of_json xs)"
| "of_json (JObj fs) = VObj (map (\<lambda>(n, x). (n, of_json x)) fs)"


text \<open>
  \<^verbatim>\<open>JSON.stringify\<close> on a value in memory, as ECMAScript defines it, given by the JSON
  value that the text it writes denotes. \<^verbatim>\<open>undefined\<close> and a function have no text
  (\<open>None\<close>): in an object such a property is left out, in an array \<^verbatim>\<open>null\<close> is written
  in its place. A number that is not finite is written \<^verbatim>\<open>null\<close>. A BigInt is a
  TypeError, wherever it stands, and so is a structure that contains itself.
\<close>

fun serialize :: "jsvalue \<Rightarrow> error + json option"
  and serialize_elements :: "jsvalue list \<Rightarrow> error + json list"
  and serialize_members :: "(string \<times> jsvalue) list \<Rightarrow> error + (string \<times> json) list" where
  "serialize VUndefined = Inr None"
| "serialize VFunction = Inr None"
| "serialize VNull = Inr (Some JNull)"
| "serialize (VBool b) = Inr (Some (JBool b))"
| "serialize (VNum (Finite r)) = Inr (Some (JNum r))"
| "serialize (VNum NaN) = Inr (Some JNull)"
| "serialize (VNum Infinity) = Inr (Some JNull)"
| "serialize (VNum NegInfinity) = Inr (Some JNull)"
| "serialize (VStr s) = Inr (Some (JStr s))"
| "serialize (VBigInt n) = Inl TypeError"
| "serialize VCircular = Inl TypeError"
| "serialize (VArr xs) =
     (case serialize_elements xs of Inl e \<Rightarrow> Inl e | Inr js \<Rightarrow> Inr (Some (JArr js)))"
| "serialize (VObj fs) =
     (case serialize_members fs of Inl e \<Rightarrow> Inl e | Inr ms \<Rightarrow> Inr (Some (JObj ms)))"
| "serialize_elements [] = Inr []"
| "serialize_elements (x # xs) =
     (case serialize x of
        Inl e \<Rightarrow> Inl e
      | Inr j \<Rightarrow>
          (case serialize_elements xs of
             Inl e \<Rightarrow> Inl e
           | Inr js \<Rightarrow> Inr ((case j of None \<Rightarrow> JNull | Some v \<Rightarrow> v) # js)))"
| "serialize_members [] = Inr []"
| "serialize_members (p # fs) =
     (case serialize (snd p) of
        Inl e \<Rightarrow> Inl e
      | Inr j \<Rightarrow>
          (case serialize_members fs of
             Inl e \<Rightarrow> Inl e
           | Inr ms \<Rightarrow> Inr ((case j of None \<Rightarrow> [] | Some v \<Rightarrow> [(fst p, v)]) @ ms)))"

text \<open>
  Whether \<^verbatim>\<open>JSON.stringify\<close> returns on a value, and the JSON value it writes for the
  value as an item of an array.
\<close>

definition serializable :: "jsvalue \<Rightarrow> bool" where
  "serializable v = (case serialize v of Inl e \<Rightarrow> False | Inr j \<Rightarrow> True)"

definition written :: "jsvalue \<Rightarrow> json" where
  "written v = (case serialize v of Inr (Some j) \<Rightarrow> j | _ \<Rightarrow> JNull)"

text \<open>
  \<^verbatim>\<open>JSON.stringify(v)\<close> where a string is wanted: for a value that has no text the
  result is \<^verbatim>\<open>undefined\<close>, which \<^verbatim>\<open>localStorage.setItem\<close> stores as the string
  \<^verbatim>\<open>undefined\<close>, not JSON.
\<close>

definition JSON_stringify_value :: "jsvalue \<Rightarrow> error + jsontext" where
  "JSON_stringify_value v =
     (case serialize v of
        Inl e \<Rightarrow> Inl e
      | Inr None \<Rightarrow> Inr Garbled
      | Inr (Some j) \<Rightarrow> Inr (Json j))"

section \<open>The schema (schema.js) and its validator\<close>

text \<open>
  \<^verbatim>\<open>schema.js\<close> is a JSON Schema; \<^verbatim>\<open>AgentLogger.validate\<close> is what Ajv compiles from it.
  The schema is kept as data, keyword by keyword, and \<open>keyword_ok\<close> gives each keyword the
  meaning JSON Schema (draft 7) gives it: a keyword constrains only values of the type it
  is about and accepts every other value. The annotations \<^verbatim>\<open>description\<close> and
  \<^verbatim>\<open>examples\<close> constrain nothing and are left out.
\<close>

datatype jtype = TString | TNumber | TInteger | TObject | TArray

datatype keyword =
    Type "jtype list"
  | Required "string list"
  | Properties "(string \<times> keyword list) list"
  | AdditionalProperties bool
  | Enum "json list"
  | MinLength nat
  | Pattern string
  | Format string
  | Items "keyword list"
  | Minimum rat
  | Maximum rat

text \<open>
  The checkers of the \<^verbatim>\<open>format\<close> keyword belong to Ajv, not to this repository: they are
  a parameter, from the format's name to the strings it accepts.
\<close>

type_synonym formats = "string \<Rightarrow> string \<Rightarrow> bool"

fun has_type :: "json \<Rightarrow> jtype \<Rightarrow> bool" where
  "has_type (JStr s) TString = True"
| "has_type (JNum r) TNumber = True"
| "has_type (JNum r) TInteger = (r \<in> \<int>)"
| "has_type (JObj fs) TObject = True"
| "has_type (JArr xs) TArray = True"
| "has_type _ _ = False"

text \<open>The names under the \<^verbatim>\<open>properties\<close> of a schema: what \<^verbatim>\<open>additionalProperties\<close> compares with.\<close>

definition declared :: "keyword list \<Rightarrow> string list" where
  "declared ks = concat (map (\<lambda>k. case k of Properties ps \<Rightarrow> map fst ps | _ \<Rightarrow> []) ks)"

text \<open>
  The schema has one regular expression, \<^verbatim>\<open>^[a-f0-9]+$\<close>: one or more characters, each a
  digit or a lower-case letter up to f.
\<close>

definition regexp_test :: "string \<Rightarrow> string \<Rightarrow> bool" where
  "regexp_test p s =
     (p = ''^[a-f0-9]+$'' \<and> s \<noteq> [] \<and> list_all (\<lambda>c. c \<in> set ''abcdef0123456789'') s)"

fun keyword_ok :: "formats \<Rightarrow> string list \<Rightarrow> json \<Rightarrow> keyword \<Rightarrow> bool" where
  "keyword_ok F ds v (Type ts) = list_ex (has_type v) ts"
| "keyword_ok F ds v (Required ns) =
     (case v of JObj fs \<Rightarrow> list_all (\<lambda>n. map_of fs n \<noteq> None) ns | _ \<Rightarrow> True)"
| "keyword_ok F ds v (Properties ps) =
     (case v of
        JObj fs \<Rightarrow>
          list_all (\<lambda>(n, sub). case map_of fs n of
                        None \<Rightarrow> True
                      | Some x \<Rightarrow> list_all (keyword_ok F (declared sub) x) sub) ps
      | _ \<Rightarrow> True)"
| "keyword_ok F ds v (AdditionalProperties allowed) =
     (case v of JObj fs \<Rightarrow> allowed \<or> list_all (\<lambda>(n, x). n \<in> set ds) fs | _ \<Rightarrow> True)"
| "keyword_ok F ds v (Enum vs) = (v \<in> set vs)"
| "keyword_ok F ds v (MinLength n) = (case v of JStr s \<Rightarrow> n \<le> length s | _ \<Rightarrow> True)"
| "keyword_ok F ds v (Pattern p) = (case v of JStr s \<Rightarrow> regexp_test p s | _ \<Rightarrow> True)"
| "keyword_ok F ds v (Format f) = (case v of JStr s \<Rightarrow> F f s | _ \<Rightarrow> True)"
| "keyword_ok F ds v (Items sub) =
     (case v of
        JArr xs \<Rightarrow> list_all (\<lambda>x. list_all (keyword_ok F (declared sub) x) sub) xs
      | _ \<Rightarrow> True)"
| "keyword_ok F ds v (Minimum m) = (case v of JNum r \<Rightarrow> m \<le> r | _ \<Rightarrow> True)"
| "keyword_ok F ds v (Maximum m) = (case v of JNum r \<Rightarrow> r \<le> m | _ \<Rightarrow> True)"

definition conforms :: "formats \<Rightarrow> keyword list \<Rightarrow> json \<Rightarrow> bool" where
  "conforms F ks v = list_all (keyword_ok F (declared ks) v) ks"

definition type_enum :: "string list" where
  "type_enum = [''commit'', ''analysis'', ''detection'', ''validation'', ''monitoring'',
     ''documentation'', ''security'', ''optimization'', ''refactoring'', ''deployment'',
     ''collaboration'', ''info'']"

definition status_enum :: "string list" where
  "status_enum = [''success'', ''processing'', ''error'', ''warning'', ''info'']"

definition metadata_schema :: "keyword list" where
  "metadata_schema =
    [Type [TObject],
     Properties
      [(''commitHash'', [Type [TString], Pattern ''^[a-f0-9]+$'']),
       (''filePath'', [Type [TString]]),
       (''lineNumbers'', [Type [TArray], Items [Type [TInteger]]]),
       (''duration'', [Type [TNumber], Minimum 0]),
       (''confidence'', [Type [TNumber], Minimum 0, Maximum 1]),
       (''tags'', [Type [TArray], Items [Type [TString]]]),
       (''relatedActivities'', [Type [TArray], Items [Type [TNumber, TString]]]),
       (''repository'', [Type [TString]]),
       (''branch'', [Type [TString]]),
       (''pullRequest'', [Type [TInteger]]),
       (''issue'', [Type [TInteger]]),
       (''errorMessage'', [Type [TString]]),
       (''url'', [Type [TString], Format ''uri''])],
     AdditionalProperties True]"

definition schema :: "keyword list" where
  "schema =
    [Type [TObject],
     Required [''id'', ''timestamp'', ''agent'', ''action'', ''type'', ''status''],
     Properties
      [(''id'', [Type [TNumber, TString]]),
       (''timestamp'', [Type [TString], Format ''date-time'']),
       (''agent'', [Type [TString], MinLength 1]),
       (''action'', [Type [TString], MinLength 1]),
       (''type'', [Type [TString], Enum (map JStr type_enum)]),
       (''status'', [Type [TString], Enum (map JStr status_enum)]),
       (''metadata'', metadata_schema)],
     AdditionalProperties False]"

definition validate :: "formats \<Rightarrow> json \<Rightarrow> bool" where
  "validate F activity = conforms F schema activity"

text \<open>
  \<open>validate\<close> above is the validator on a value that \<^verbatim>\<open>JSON.parse\<close> returned, as
  \<^verbatim>\<open>importActivities\<close> calls it. \<^verbatim>\<open>log\<close> calls it on the candidate it has built from
  its arguments, a value in memory, and there the code that Ajv 6 generates (the version
  with the formats \<^verbatim>\<open>date-time\<close> and \<^verbatim>\<open>uri\<close> built in) decides as follows. A number
  is whatever \<^verbatim>\<open>typeof\<close> calls a number, \<^verbatim>\<open>NaN\<close> and the infinities included; an
  integer is a number \<open>x\<close> with \<^verbatim>\<open>!(x % 1) && x === x\<close>, which the infinities pass.
  \<^verbatim>\<open>minimum\<close> and \<^verbatim>\<open>maximum\<close> compare with \<^verbatim>\<open><\<close> and \<^verbatim>\<open>>\<close> and refuse \<^verbatim>\<open>NaN\<close>. A
  property that holds \<^verbatim>\<open>undefined\<close> is missing for \<^verbatim>\<open>required\<close> and skipped by
  \<^verbatim>\<open>properties\<close>, and its name counts for \<^verbatim>\<open>additionalProperties\<close>. A reference
  back is taken as an object: where the schema asks for an array, in a property of the
  metadata, a reference back can only be to the metadata, and below that the schema asks
  for strings and numbers only, so the validator never looks into one.
\<close>

fun value_has_type :: "jsvalue \<Rightarrow> jtype \<Rightarrow> bool" where
  "value_has_type (VStr s) TString = True"
| "value_has_type (VNum n) TNumber = True"
| "value_has_type (VNum (Finite r)) TInteger = (r \<in> \<int>)"
| "value_has_type (VNum Infinity) TInteger = True"
| "value_has_type (VNum NegInfinity) TInteger = True"
| "value_has_type (VObj fs) TObject = True"
| "value_has_type VCircular TObject = True"
| "value_has_type (VArr xs) TArray = True"
| "value_has_type _ _ = False"

definition defined :: "(string \<times> jsvalue) list \<Rightarrow> string \<Rightarrow> jsvalue option" where
  "defined fs n = (case map_of fs n of Some VUndefined \<Rightarrow> None | r \<Rightarrow> r)"

fun at_least :: "rat \<Rightarrow> number \<Rightarrow> bool" where
  "at_least m (Finite r) = (m \<le> r)"
| "at_least m Infinity = True"
| "at_least m _ = False"

fun at_most :: "rat \<Rightarrow> number \<Rightarrow> bool" where
  "at_most m (Finite r) = (r \<le> m)"
| "at_most m NegInfinity = True"
| "at_most m _ = False"

fun keyword_holds :: "formats \<Rightarrow> string list \<Rightarrow> jsvalue \<Rightarrow> keyword \<Rightarrow> bool" where
  "keyword_holds F ds v (Type ts) = list_ex (value_has_type v) ts"
| "keyword_holds F ds v (Required ns) =
     (case v of VObj fs \<Rightarrow> list_all (\<lambda>n. defined fs n \<noteq> None) ns | _ \<Rightarrow> True)"
| "keyword_holds F ds v (Properties ps) =
     (case v of
        VObj fs \<Rightarrow>
          list_all (\<lambda>(n, sub). case defined fs n of
                        None \<Rightarrow> True
                      | Some x \<Rightarrow> list_all (keyword_holds F (declared sub) x) sub) ps
      | _ \<Rightarrow> True)"
| "keyword_holds F ds v (AdditionalProperties allowed) =
     (case v of VObj fs \<Rightarrow> allowed \<or> list_all (\<lambda>(n, x). n \<in> set ds) fs | _ \<Rightarrow> True)"
| "keyword_holds F ds v (Enum vs) = (v \<in> set (map of_json vs))"
| "keyword_holds F ds v (MinLength n) = (case v of VStr s \<Rightarrow> n \<le> length s | _ \<Rightarrow> True)"
| "keyword_holds F ds v (Pattern p) = (case v of VStr s \<Rightarrow> regexp_test p s | _ \<Rightarrow> True)"
| "keyword_holds F ds v (Format f) = (case v of VStr s \<Rightarrow> F f s | _ \<Rightarrow> True)"
| "keyword_holds F ds v (Items sub) =
     (case v of
        VArr xs \<Rightarrow> list_all (\<lambda>x. list_all (keyword_holds F (declared sub) x) sub) xs
      | _ \<Rightarrow> True)"
| "keyword_holds F ds v (Minimum m) = (case v of VNum n \<Rightarrow> at_least m n | _ \<Rightarrow> True)"
| "keyword_holds F ds v (Maximum m) = (case v of VNum n \<Rightarrow> at_most m n | _ \<Rightarrow> True)"

definition conforms_value :: "formats \<Rightarrow> keyword list \<Rightarrow> jsvalue \<Rightarrow> bool" where
  "conforms_value F ks v = list_all (keyword_holds F (declared ks) v) ks"

definition validate_value :: "formats \<Rightarrow> jsvalue \<Rightarrow> bool" where
  "validate_value F activity = conforms_value F schema activity"

section \<open>The browser: \<^verbatim>\<open>localStorage\<close> and events\<close>

text \<open>
  \<^verbatim>\<open>localStorage\<close> maps keys to strings. \<^verbatim>\<open>window.dispatchEvent\<close> runs the listeners
  before it returns, so the model records every event together with the storage its
  listeners find; the detail of an event is a value in memory. Storage is taken to be
  reliable: it is there and a write is never refused (no quota). A world is the storage
  and the events dispatched so far.
\<close>

type_synonym storage = "string \<Rightarrow> jsontext option"

datatype event = CustomEvent string "jsvalue option"

record world =
  localStorage :: storage
  dispatched :: "(event \<times> storage) list"

definition fresh :: world where
  "fresh = \<lparr>localStorage = (\<lambda>k. None), dispatched = []\<rparr>"

definition getItem :: "string \<Rightarrow> world \<Rightarrow> jsontext option" where
  "getItem k w = localStorage w k"

definition setItem :: "string \<Rightarrow> jsontext \<Rightarrow> world \<Rightarrow> world" where
  "setItem k t w = w\<lparr>localStorage := (localStorage w)(k := Some t)\<rparr>"

definition removeItem :: "string \<Rightarrow> world \<Rightarrow> world" where
  "removeItem k w = w\<lparr>localStorage := (localStorage w)(k := None)\<rparr>"

definition dispatchEvent :: "event \<Rightarrow> world \<Rightarrow> world" where
  "dispatchEvent e w = w\<lparr>dispatched := dispatched w @ [(e, localStorage w)]\<rparr>"

section \<open>AgentLogger (agentLogger.js)\<close>

definition STORAGE_KEY :: string where
  "STORAGE_KEY = ''codedao_ai_activities''"

definition MAX_ACTIVITIES :: nat where
  "MAX_ACTIVITIES = 1000"

text \<open>
  \<^verbatim>\<open>x.slice(0, n)\<close>: the first \<open>n\<close> items, or all but the last \<open>-n\<close> when \<open>n\<close> is negative.
  Arrays and strings have the method; calling it on any other JSON value is a TypeError.
\<close>

definition slice_upto :: "'a list \<Rightarrow> int \<Rightarrow> 'a list" where
  "slice_upto xs n = (if n < 0 then take (length xs - nat (- n)) xs else take (nat n) xs)"

fun slice :: "json \<Rightarrow> int \<Rightarrow> error + json" where
  "slice (JArr xs) n = Inr (JArr (slice_upto xs n))"
| "slice (JStr s) n = Inr (JStr (slice_upto s n))"
| "slice _ n = Inl TypeError"

text \<open>
  \<^verbatim>\<open>getActivities(limit = null)\<close>. The limit is an integer or absent (\<open>None\<close>); the test
  \<^verbatim>\<open>limit ? ... : ...\<close> takes the first branch for an integer other than 0. The stored
  string is parsed unless it is absent or empty, and every exception of the body ends in
  the \<^verbatim>\<open>catch\<close>, which returns the empty array.
\<close>

definition getActivities :: "int option \<Rightarrow> world \<Rightarrow> json" where
  "getActivities limit w =
     (case (case getItem STORAGE_KEY w of
              None \<Rightarrow> Inr (JArr [])
            | Some Empty \<Rightarrow> Inr (JArr [])
            | Some stored \<Rightarrow> JSON_parse stored) of
        Inl e \<Rightarrow> JArr []
      | Inr activities \<Rightarrow>
          (case limit of
             None \<Rightarrow> activities
           | Some n \<Rightarrow>
               if n = 0 then activities
               else (case slice activities n of Inl e \<Rightarrow> JArr [] | Inr part \<Rightarrow> part)))"

text \<open>
  The candidate record of \<^verbatim>\<open>log(agent, action, type = 'info', status = 'success',
  metadata = {})\<close>. An argument is any value, \<^verbatim>\<open>undefined\<close> when the caller leaves it
  out; a default replaces \<^verbatim>\<open>undefined\<close> only. \<open>now\<close> is \<^verbatim>\<open>Date.now() + Math.random()\<close>
  and \<open>stamp\<close> is \<^verbatim>\<open>new Date().toISOString()\<close>: both come from the environment.
\<close>

definition or_default :: "jsvalue \<Rightarrow> jsvalue \<Rightarrow> jsvalue" where
  "or_default v d = (if v = VUndefined then d else v)"

definition activity_of ::
  "rat \<Rightarrow> string \<Rightarrow> jsvalue \<Rightarrow> jsvalue \<Rightarrow> jsvalue \<Rightarrow> jsvalue \<Rightarrow> jsvalue \<Rightarrow> jsvalue" where
  "activity_of now stamp agent action type status metadata =
     VObj [(''id'', VNum (Finite now)),
           (''timestamp'', VStr stamp),
           (''agent'', agent),
           (''action'', action),
           (''type'', or_default type (VStr ''info'')),
           (''status'', or_default status (VStr ''success'')),
           (''metadata'', or_default metadata (VObj []))]"

text \<open>
  \<^verbatim>\<open>log\<close> (exported as \<^verbatim>\<open>logActivity\<close>). In the \<^verbatim>\<open>try\<close> block two statements can
  throw: \<^verbatim>\<open>activities.unshift\<close>, when the stored JSON is not an array, and
  \<^verbatim>\<open>JSON.stringify\<close>, when the candidate cannot be serialized (it holds a BigInt or
  contains itself). Both come before the write, so the \<^verbatim>\<open>catch\<close> returns false in an
  unchanged world. The array that is serialized holds the candidate, a value in memory,
  in front of the parsed records. The call of \<^verbatim>\<open>validate\<close> stands before the \<^verbatim>\<open>try\<close>
  block; on the values modelled here it returns.
\<close>

definition logActivity ::
  "formats \<Rightarrow> rat \<Rightarrow> string \<Rightarrow> jsvalue \<Rightarrow> jsvalue \<Rightarrow> jsvalue \<Rightarrow> jsvalue \<Rightarrow> jsvalue
     \<Rightarrow> world \<Rightarrow> bool \<times> world" where
  "logActivity F now stamp agent action type status metadata w =
     (let activity = activity_of now stamp agent action type status metadata in
      if \<not> validate_value F activity then (False, w)
      else (case getActivities None w of
              JArr xs \<Rightarrow>
                (let unshifted = activity # map of_json xs;
                     activities = (if length unshifted > MAX_ACTIVITIES
                                   then take MAX_ACTIVITIES unshifted else unshifted)
                 in case JSON_stringify_value (VArr activities) of
                      Inl e \<Rightarrow> (False, w)
                    | Inr stored \<Rightarrow>
                        (let w1 = setItem STORAGE_KEY stored w;
                             w2 = dispatchEvent (CustomEvent ''codedao:activity'' (Some activity)) w1
                         in (True, w2)))
            | _ \<Rightarrow> (False, w)))"

text \<open>
  \<^verbatim>\<open>clear\<close>: with reliable storage nothing in its \<^verbatim>\<open>try\<close> block throws, so the
  \<^verbatim>\<open>catch\<close> that returns false is never entered.
\<close>

definition clear :: "world \<Rightarrow> bool \<times> world" where
  "clear w =
     (let w1 = removeItem STORAGE_KEY w;
          w2 = dispatchEvent (CustomEvent ''codedao:cleared'' None) w1
      in (True, w2))"

definition exportActivities :: "world \<Rightarrow> jsontext" where
  "exportActivities w = JSON_stringify (getActivities None w)"

text \<open>
  \<^verbatim>\<open>importActivities\<close>: \<^verbatim>\<open>JSON.parse\<close> throws on text that is not JSON, and
  \<^verbatim>\<open>activities.filter\<close> is a TypeError unless the parsed value is an array; both happen
  before the write and end in the \<^verbatim>\<open>catch\<close>.
\<close>

definition importActivities :: "formats \<Rightarrow> jsontext \<Rightarrow> world \<Rightarrow> bool \<times> world" where
  "importActivities F jsonData w =
     (case JSON_parse jsonData of
        Inl e \<Rightarrow> (False, w)
      | Inr activities \<Rightarrow>
          (case activities of
             JArr xs \<Rightarrow>
               (let validActivities = filter (validate F) xs;
                    w1 = setItem STORAGE_KEY (JSON_stringify (JArr validActivities)) w;
                    w2 = dispatchEvent (CustomEvent ''codedao:imported'' None) w1
                in (True, w2))
           | _ \<Rightarrow> (False, w)))"

section \<open>Statistics: plain objects as dictionaries\<close>

text \<open>
  \<^verbatim>\<open>getStatistics\<close> counts in three plain objects, \<^verbatim>\<open>stats.byAgent[k] =
  (stats.byAgent[k] || 0) + 1\<close>, and the dashboard lists them with \<^verbatim>\<open>Object.keys\<close> and
  \<^verbatim>\<open>Object.entries\<close>. A plain object is modelled by the list of its own properties in
  the order JavaScript enumerates them: the array indices first (the decimal numerals of
  0 to 4294967294), ascending, then every other name in the order of its creation.
\<close>

definition digits :: string where
  "digits = ''0123456789''"

definition digit_value :: "char \<Rightarrow> nat" where
  "digit_value c = length (takeWhile (\<lambda>d. d \<noteq> c) digits)"

definition decimal :: "string \<Rightarrow> nat" where
  "decimal s = foldl (\<lambda>n c. 10 * n + digit_value c) 0 s"

fun numeral_of :: "nat \<Rightarrow> string" where
  "numeral_of n = (if n < 10 then [digits ! n] else numeral_of (n div 10) @ [digits ! (n mod 10)])"

declare numeral_of.simps [simp del]

definition is_array_index :: "string \<Rightarrow> bool" where
  "is_array_index k = (decimal k < 4294967295 \<and> numeral_of (decimal k) = k)"

text \<open>
  A value under a key of such an object: a number, or a string (\<open>Text\<close>; what it spells is
  not modelled).
\<close>

datatype tally = Count nat | Text

text \<open>\<open>place\<close> creates a property named by an array index, \<open>assign\<close> is \<^verbatim>\<open>obj[k] = v\<close>.\<close>

fun place :: "string \<Rightarrow> 'v \<Rightarrow> (string \<times> 'v) list \<Rightarrow> (string \<times> 'v) list" where
  "place k v [] = [(k, v)]"
| "place k v (p # ps) =
     (if is_array_index (fst p) \<and> decimal (fst p) < decimal k then p # place k v ps
      else (k, v) # p # ps)"

definition assign :: "string \<Rightarrow> 'v \<Rightarrow> (string \<times> 'v) list \<Rightarrow> (string \<times> 'v) list" where
  "assign k v d =
     (if k \<in> set (map fst d) then map (\<lambda>p. if fst p = k then (k, v) else p) d
      else if is_array_index k then place k v d
      else d @ [(k, v)])"

text \<open>
  An object literal inherits from \<^verbatim>\<open>Object.prototype\<close>. Reading a name the object does
  not own finds the inherited method, if there is one: it is truthy, and \<^verbatim>\<open>+ 1\<close> turns it
  into a string, which the assignment stores. \<^verbatim>\<open>__proto__\<close> is an accessor: reading it
  yields the prototype, and its setter ignores the string.
\<close>

definition Object_prototype :: "string list" where
  "Object_prototype = [''constructor'', ''__defineGetter__'', ''__defineSetter__'',
     ''hasOwnProperty'', ''__lookupGetter__'', ''__lookupSetter__'', ''isPrototypeOf'',
     ''propertyIsEnumerable'', ''toString'', ''valueOf'', ''toLocaleString'']"

definition bump :: "string \<Rightarrow> (string \<times> tally) list \<Rightarrow> (string \<times> tally) list" where
  "bump k d =
     (case map_of d k of
        Some (Count n) \<Rightarrow> assign k (Count (n + 1)) d
      | Some Text \<Rightarrow> assign k Text d
      | None \<Rightarrow>
          if k = ''__proto__'' then d
          else if k \<in> set Object_prototype then assign k Text d
          else assign k (Count 1) d)"

text \<open>
  \<^verbatim>\<open>activity.agent\<close> on an element of the stored array: a TypeError on \<^verbatim>\<open>null\<close>, the own
  property of an object, \<^verbatim>\<open>undefined\<close> on anything else (no array, string, number or
  boolean has a property named agent, type or status). The value then becomes a property
  key; the key of a number or an array needs JavaScript's number formatting, which is
  not modelled (the schema admits strings only in these three fields).
\<close>

fun member :: "json \<Rightarrow> string \<Rightarrow> error + json option" where
  "member JNull n = Inl TypeError"
| "member (JObj fs) n = Inr (map_of fs n)"
| "member _ n = Inr None"

fun property_key :: "json option \<Rightarrow> error + string" where
  "property_key None = Inr ''undefined''"
| "property_key (Some (JStr s)) = Inr s"
| "property_key (Some JNull) = Inr ''null''"
| "property_key (Some (JBool b)) = Inr (if b then ''true'' else ''false'')"
| "property_key (Some (JObj fs)) = Inr ''[object Object]''"
| "property_key (Some (JNum r)) = Inl Unmodelled"
| "property_key (Some (JArr xs)) = Inl Unmodelled"

definition and_then :: "error + 'a \<Rightarrow> ('a \<Rightarrow> error + 'b) \<Rightarrow> error + 'b" where
  "and_then r f = (case r of Inl e \<Rightarrow> Inl e | Inr x \<Rightarrow> f x)"

definition key_of :: "json \<Rightarrow> string \<Rightarrow> error + string" where
  "key_of activity n = and_then (member activity n) property_key"

record stats =
  total :: nat
  byAgent :: "(string \<times> tally) list"
  byType :: "(string \<times> tally) list"
  byStatus :: "(string \<times> tally) list"
  recentActivity :: "json list"

definition count_activity :: "json \<Rightarrow> stats \<Rightarrow> error + stats" where
  "count_activity activity s =
     and_then (key_of activity ''agent'') (\<lambda>a.
     and_then (key_of activity ''type'') (\<lambda>t.
     and_then (key_of activity ''status'') (\<lambda>u.
       Inr (s\<lparr>byAgent := bump a (byAgent s),
              byType := bump t (byType s),
              byStatus := bump u (byStatus s)\<rparr>))))"

fun forEach :: "json list \<Rightarrow> stats \<Rightarrow> error + stats" where
  "forEach [] s = Inr s"
| "forEach (activity # rest) s = and_then (count_activity activity s) (forEach rest)"

text \<open>
  \<^verbatim>\<open>getStatistics\<close> has no \<^verbatim>\<open>try\<close>: on stored JSON that is not an array the exception
  (no \<^verbatim>\<open>slice\<close>, or no \<^verbatim>\<open>forEach\<close>) reaches the caller.
\<close>

definition getStatistics :: "world \<Rightarrow> error + stats" where
  "getStatistics w =
     (case getActivities None w of
        JArr activities \<Rightarrow>
          forEach activities
            \<lparr>total = length activities, byAgent = [], byType = [], byStatus = [],
             recentActivity = slice_upto activities 10\<rparr>
      | _ \<Rightarrow> Inl TypeError)"

section \<open>Worlds the public operations can reach\<close>



section \<open>Sample data\<close>

text \<open>
  One table of formats for the worked examples: \<^verbatim>\<open>date-time\<close> accepts the shape that
  \<^verbatim>\<open>toISOString\<close> prints, \<^verbatim>\<open>uri\<close> a string with a colon, any other format every string.
\<close>

definition iso_shape :: "string \<Rightarrow> bool" where
  "iso_shape s =
     list_all2 (\<lambda>p c. if p = CHR ''d'' then c \<in> set digits else c = p)
       ''dddd-dd-ddTdd:dd:dd.dddZ'' s"

definition sample_formats :: formats where
  "sample_formats f s =
     (if f = ''date-time'' then iso_shape s
      else if f = ''uri'' then CHR '':'' \<in> set s
      else True)"

text \<open>
  The call \<^verbatim>\<open>log(agent, 'Fixed syntax error', 'commit')\<close> at a given time, and the record
  it stores.
\<close>

definition sample_log :: "rat \<Rightarrow> string \<Rightarrow> world \<Rightarrow> bool \<times> world" where
  "sample_log now agent w =
     logActivity sample_formats now ''2025-01-01T00:00:00.000Z''
       (VStr agent) (VStr ''Fixed syntax error'') (VStr ''commit'') VUndefined VUndefined w"

definition sample_activity :: "rat \<Rightarrow> string \<Rightarrow> json" where
  "sample_activity now agent =
     JObj [(''id'', JNum now),
           (''timestamp'', JStr ''2025-01-01T00:00:00.000Z''),
           (''agent'', JStr agent),
           (''action'', JStr ''Fixed syntax error''),
           (''type'', JStr ''commit''),
           (''status'', JStr ''success''),
           (''metadata'', JObj [])]"

definition sample_batch :: "nat \<Rightarrow> json list" where
  "sample_batch n = map (\<lambda>i. sample_activity (of_nat i) ''Claude'') [0..<n]"

section \<open>Notions the properties are stated with\<close>

text \<open>What \<^verbatim>\<open>getActivities()\<close> returns to a listener that runs while the storage is \<open>s\<close>.\<close>

definition observed :: "storage \<Rightarrow> json" where
  "observed s = getActivities None \<lparr>localStorage = s, dispatched = []\<rparr>"

text \<open>
  A run of appends: each call of \<^verbatim>\<open>log\<close> with its arguments and what the clock and the
  random generator gave it. \<open>record_of\<close> is the record a call stores when it succeeds,
  its candidate as \<^verbatim>\<open>JSON.stringify\<close> writes it; \<open>accepted\<close> lists the records of the
  calls whose candidate passes the schema and can be serialized, in the order of the
  calls.
\<close>

type_synonym call =
  "rat \<times> string \<times> jsvalue \<times> jsvalue \<times> jsvalue \<times> jsvalue \<times> jsvalue"

definition candidate :: "call \<Rightarrow> jsvalue" where
  "candidate c =
     (case c of (now, stamp, agent, action, type, status, metadata) \<Rightarrow>
        activity_of now stamp agent action type status metadata)"

definition log_call :: "formats \<Rightarrow> call \<Rightarrow> world \<Rightarrow> bool \<times> world" where
  "log_call F c w =
     (case c of (now, stamp, agent, action, type, status, metadata) \<Rightarrow>
        logActivity F now stamp agent action type status metadata w)"

fun appends :: "formats \<Rightarrow> call list \<Rightarrow> world \<Rightarrow> world" where
  "appends F [] w = w"
| "appends F (c # cs) w = appends F cs (snd (log_call F c w))"

definition record_of :: "call \<Rightarrow> json" where
  "record_of c = written (candidate c)"

definition accepted :: "formats \<Rightarrow> call list \<Rightarrow> json list" where
  "accepted F cs =
     map record_of
       (filter (\<lambda>c. validate_value F (candidate c) \<and> serializable (candidate c)) cs)"






text \<open>Two sample appends on the empty store, an older one and a newer one.\<close>

definition sample_call :: "rat \<Rightarrow> string \<Rightarrow> call" where
  "sample_call now agent =
     (now, ''2025-01-01T00:00:00.000Z'', VStr agent, VStr ''Fixed syntax error'',
      VStr ''commit'', VUndefined, VUndefined)"

definition two_appends :: world where
  "two_appends = appends sample_formats [sample_call 1 ''Claude'', sample_call 2 ''ChatGPT''] fresh"


definition inherited_agent :: world where
  "inherited_agent = appends sample_formats [sample_call 1 ''constructor''] fresh"


section \<open>Reading and writing the slot\<close>


lemma getActivities_removed:
  "getActivities None (dispatchEvent e (removeItem STORAGE_KEY w)) = JArr []"
  by (simp add: getActivities_def getItem_def removeItem_def dispatchEvent_def)

lemma getActivities_setItem: "getActivities None (setItem STORAGE_KEY (Json v) w) = v"
  by (simp add: getActivities_def getItem_def setItem_def JSON_parse_def)

lemma getActivities_dispatchEvent:
  "getActivities limit (dispatchEvent e w) = getActivities limit w"
  by (simp add: getActivities_def getItem_def dispatchEvent_def)

lemma getActivities_storage:
  "localStorage w = localStorage w' \<Longrightarrow> getActivities limit w = getActivities limit w'"
  by (simp add: getActivities_def getItem_def)

lemma observed_storage: "observed (localStorage w) = getActivities None w"
  unfolding observed_def by (rule getActivities_storage) simp

section \<open>Clear\<close>

text \<open>
  C8. \<^verbatim>\<open>clear\<close> removes the slot, so that the collection reads as the empty array,
  dispatches \<^verbatim>\<open>codedao:cleared\<close> with no detail after the removal, and returns true.
  A second \<^verbatim>\<open>clear\<close> right after it returns true again and leaves the storage as the
  first one left it, the collection empty. It holds in every world, empty or not.
\<close>

theorem clear_empties_twice:
  "fst (clear w) = True
   \<and> localStorage (snd (clear w)) STORAGE_KEY = None
   \<and> getActivities None (snd (clear w)) = JArr []
   \<and> dispatched (snd (clear w))
       = dispatched w @ [(CustomEvent ''codedao:cleared'' None, localStorage (snd (clear w)))]
   \<and> fst (clear (snd (clear w))) = True
   \<and> localStorage (snd (clear (snd (clear w)))) = localStorage (snd (clear w))
   \<and> getActivities None (snd (clear (snd (clear w)))) = JArr []"
  by (simp add: clear_def Let_def getActivities_removed)
    (simp add: removeItem_def dispatchEvent_def)

section \<open>Values in memory and JSON\<close>

text \<open>
  A value that \<^verbatim>\<open>JSON.parse\<close> returned is serialized as itself, and the validator decides
  on it in memory as \<open>validate\<close> decides on the JSON value.
\<close>

lemma of_json_defined: "of_json x \<noteq> VUndefined"
  by (cases x) simp_all

lemma serialize_elements_of_json:
  "(\<And>x. x \<in> set xs \<Longrightarrow> serialize (of_json x) = Inr (Some x)) \<Longrightarrow>
   serialize_elements (map of_json xs) = Inr xs"
  by (induction xs) simp_all

lemma serialize_members_of_json:
  "(\<And>n x. (n, x) \<in> set fs \<Longrightarrow> serialize (of_json x) = Inr (Some x)) \<Longrightarrow>
   serialize_members (map (\<lambda>(n, x). (n, of_json x)) fs) = Inr fs"
proof (induction fs)
  case Nil
  show ?case by simp
next
  case (Cons p fs)
  obtain n x where p: "p = (n, x)" by (cases p)
  have "serialize (of_json x) = Inr (Some x)"
    by (rule Cons.prems [of n]) (simp add: p)
  moreover have "serialize_members (map (\<lambda>(n, x). (n, of_json x)) fs) = Inr fs"
  proof (rule Cons.IH)
    fix m y
    assume "(m, y) \<in> set fs"
    then show "serialize (of_json y) = Inr (Some y)"
      by (intro Cons.prems [of m]) simp
  qed
  ultimately show ?case by (simp add: p)
qed

lemma serialize_of_json: "serialize (of_json j) = Inr (Some j)"
proof (induction j)
  case (JArr xs)
  then show ?case by (simp add: serialize_elements_of_json)
next
  case (JObj fs)
  have "serialize_members (map (\<lambda>(n, x). (n, of_json x)) fs) = Inr fs"
    by (rule serialize_members_of_json) (auto intro: JObj)
  then show ?case by simp
qed simp_all

lemma serialize_elements_parsed: "serialize_elements (map of_json xs) = Inr xs"
  by (simp add: serialize_elements_of_json serialize_of_json)

lemma written_of_json: "written (of_json j) = j"
  by (simp add: written_def serialize_of_json)

lemma serializable_of_json: "serializable (of_json j)"
  by (simp add: serializable_def serialize_of_json)

lemma JSON_stringify_of_json: "JSON_stringify_value (of_json j) = Inr (JSON_stringify j)"
  by (simp add: JSON_stringify_value_def JSON_stringify_def serialize_of_json)

lemma of_json_inject: "(of_json a = of_json b) = (a = b)"
proof -
  have "a = b" if "of_json a = of_json b"
  proof -
    from that have "written (of_json a) = written (of_json b)" by (rule arg_cong)
    then show ?thesis by (simp only: written_of_json)
  qed
  then show ?thesis by auto
qed

lemma value_has_type_of_json: "value_has_type (of_json j) t = has_type j t"
  by (cases j; cases t) simp_all

lemma defined_of_json:
  "defined (map (\<lambda>(n, x). (n, of_json x)) fs) n = map_option of_json (map_of fs n)"
  by (simp add: defined_def map_of_map of_json_defined split: option.splits jsvalue.splits)

lemma keyword_of_json:
  "keyword_holds F ds (of_json j) k = keyword_ok F ds j k"
proof (induction k arbitrary: ds j)
  case (Type ts)
  show ?case by (simp add: value_has_type_of_json list_ex_iff)
next
  case (Required ns)
  show ?case by (cases j) (simp_all add: defined_of_json)
next
  case (Properties ps)
  show ?case
  proof (cases j)
    case (JObj fs)
    have "(case defined (map (\<lambda>(n, x). (n, of_json x)) fs) n of None \<Rightarrow> True
            | Some x \<Rightarrow> list_all (keyword_holds F (declared sub) x) sub)
        = (case map_of fs n of None \<Rightarrow> True
            | Some x \<Rightarrow> list_all (keyword_ok F (declared sub) x) sub)"
      if "(n, sub) \<in> set ps" for n sub
    proof (cases "map_of fs n")
      case None
      then show ?thesis by (simp add: defined_of_json)
    next
      case (Some x)
      have "keyword_holds F (declared sub) (of_json x) k = keyword_ok F (declared sub) x k"
        if "k \<in> set sub" for k
        using Properties that \<open>(n, sub) \<in> set ps\<close> by fastforce
      with Some show ?thesis by (simp add: defined_of_json list_all_iff)
    qed
    then show ?thesis
      using JObj by (auto simp: list_all_iff)
  qed simp_all
next
  case (AdditionalProperties allowed)
  show ?case by (cases j) (auto simp: list_all_iff)
next
  case (Enum vs)
  show ?case by (auto simp: of_json_inject)
next
  case (MinLength n)
  show ?case by (cases j) simp_all
next
  case (Pattern p)
  show ?case by (cases j) simp_all
next
  case (Format f)
  show ?case by (cases j) simp_all
next
  case (Items sub)
  show ?case
  proof (cases j)
    case (JArr xs)
    have "keyword_holds F (declared sub) (of_json x) k = keyword_ok F (declared sub) x k"
      if "k \<in> set sub" for k x
      using Items that by simp
    with JArr show ?thesis by (simp add: list_all_iff)
  qed simp_all
next
  case (Minimum m)
  show ?case by (cases j) simp_all
next
  case (Maximum m)
  show ?case by (cases j) simp_all
qed

lemma conforms_of_json: "conforms_value F ks (of_json j) = conforms F ks j"
  by (simp add: conforms_value_def conforms_def keyword_of_json list_all_iff)

lemma validate_of_json: "validate_value F (of_json j) = validate F j"
  by (simp add: validate_value_def validate_def conforms_of_json)

section \<open>What each operation does\<close>

text \<open>
  What \<^verbatim>\<open>log\<close> writes: the candidate as \<^verbatim>\<open>JSON.stringify\<close> writes it, in front of the
  parsed records, which are written as they were read.
\<close>

lemma stringify_unshifted:
  "JSON_stringify_value (VArr (a # map of_json xs)) =
     (case serialize a of Inl e \<Rightarrow> Inl e | Inr j \<Rightarrow> Inr (Json (JArr (written a # xs))))"
  by (simp add: JSON_stringify_value_def serialize_elements_parsed written_def
      split: sum.splits option.splits)

lemma splice_unshifted:
  "(if length (a # map of_json xs) > MAX_ACTIVITIES
    then take MAX_ACTIVITIES (a # map of_json xs) else a # map of_json xs)
   = a # map of_json (take (MAX_ACTIVITIES - 1) xs)"
  by (simp add: MAX_ACTIVITIES_def take_map take_Cons')

lemma take_unshifted:
  "written a # take (MAX_ACTIVITIES - 1) xs = take MAX_ACTIVITIES (written a # xs)"
  by (simp add: MAX_ACTIVITIES_def)

lemma stored_text:
  "JSON_stringify_value
     (VArr (if length (a # map of_json xs) > MAX_ACTIVITIES
            then take MAX_ACTIVITIES (a # map of_json xs) else a # map of_json xs))
   = (case serialize a of
        Inl e \<Rightarrow> Inl e
      | Inr j \<Rightarrow> Inr (Json (JArr (take MAX_ACTIVITIES (written a # xs)))))"
  by (simp only: splice_unshifted stringify_unshifted take_unshifted)

lemma serialize_object:
  "serializable (VObj fs) \<Longrightarrow> serialize (VObj fs) = Inr (Some (written (VObj fs)))"
  by (simp add: serializable_def written_def split: sum.splits)

lemma candidate_written:
  "serializable (activity_of now stamp agent action type status metadata) \<Longrightarrow>
   serialize (activity_of now stamp agent action type status metadata)
     = Inr (Some (written (activity_of now stamp agent action type status metadata)))"
  unfolding activity_of_def by (rule serialize_object)

lemma logActivity_invalid:
  "\<not> validate_value F (activity_of now stamp agent action type status metadata) \<Longrightarrow>
   logActivity F now stamp agent action type status metadata w = (False, w)"
  by (simp add: logActivity_def)

lemma logActivity_not_array:
  "\<not> is_array (getActivities None w) \<Longrightarrow>
   logActivity F now stamp agent action type status metadata w = (False, w)"
  by (cases "getActivities None w") (simp_all add: logActivity_def Let_def)

lemma logActivity_unserializable:
  "\<not> serializable (activity_of now stamp agent action type status metadata) \<Longrightarrow>
   logActivity F now stamp agent action type status metadata w = (False, w)"
  unfolding logActivity_def Let_def stored_text
  by (cases "getActivities None w") (simp_all add: serializable_def split: sum.splits)

lemma logActivity_valid:
  assumes "validate_value F (activity_of now stamp agent action type status metadata)"
    and "serializable (activity_of now stamp agent action type status metadata)"
    and "is_array (getActivities None w)"
  shows "logActivity F now stamp agent action type status metadata w =
    (True, dispatchEvent
       (CustomEvent ''codedao:activity''
          (Some (activity_of now stamp agent action type status metadata)))
       (setItem STORAGE_KEY
          (Json (JArr (take MAX_ACTIVITIES
                (written (activity_of now stamp agent action type status metadata)
                   # elements (getActivities None w))))) w))"
  using assms unfolding logActivity_def Let_def stored_text
  by (cases "getActivities None w") (simp_all add: serializable_def split: sum.splits)

lemma logActivity_success:
  "fst (logActivity F now stamp agent action type status metadata w) =
   (validate_value F (activity_of now stamp agent action type status metadata)
    \<and> serializable (activity_of now stamp agent action type status metadata)
    \<and> is_array (getActivities None w))"
  using logActivity_valid [of F now stamp agent action type status metadata w]
    logActivity_invalid [of F now stamp agent action type status metadata w]
    logActivity_unserializable [of now stamp agent action type status metadata F w]
    logActivity_not_array [of w F now stamp agent action type status metadata]
  by (cases "validate_value F (activity_of now stamp agent action type status metadata)";
      cases "serializable (activity_of now stamp agent action type status metadata)";
      cases "is_array (getActivities None w)") simp_all

lemma logActivity_records:
  "is_array (getActivities None w) \<Longrightarrow>
   getActivities None (snd (logActivity F now stamp agent action type status metadata w)) =
     (if validate_value F (activity_of now stamp agent action type status metadata)
         \<and> serializable (activity_of now stamp agent action type status metadata)
      then JArr (take MAX_ACTIVITIES
             (written (activity_of now stamp agent action type status metadata)
                # elements (getActivities None w)))
      else getActivities None w)"
  using logActivity_invalid [of F now stamp agent action type status metadata w]
    logActivity_unserializable [of now stamp agent action type status metadata F w]
  by (auto simp: logActivity_valid getActivities_setItem getActivities_dispatchEvent)

lemma importActivities_array:
  "importActivities F (Json (JArr xs)) w =
    (True, dispatchEvent (CustomEvent ''codedao:imported'' None)
       (setItem STORAGE_KEY (JSON_stringify (JArr (filter (validate F) xs))) w))"
  by (simp add: importActivities_def JSON_parse_def Let_def)

lemma importActivities_not_array:
  "\<not> is_array v \<Longrightarrow> importActivities F (Json v) w = (False, w)"
  by (cases v) (simp_all add: importActivities_def JSON_parse_def)


lemma dispatched_dispatchEvent:
  "dispatched (dispatchEvent e w) = dispatched w @ [(e, localStorage w)]"
  "localStorage (dispatchEvent e w) = localStorage w"
  "dispatched (setItem k t w) = dispatched w"
  by (simp_all add: dispatchEvent_def setItem_def)








lemma getActivities_Some:
  "getActivities (Some n) w =
     (if n = 0 then getActivities None w
      else (case slice (getActivities None w) n of Inl e \<Rightarrow> JArr [] | Inr part \<Rightarrow> part))"
  by (simp add: getActivities_def getItem_def JSON_parse_def slice_upto_def
           split: jsontext.splits option.splits)

lemma getActivities_limited:
  "is_array (getActivities None w) \<Longrightarrow>
   getActivities (Some n) w =
     (if n = 0 then getActivities None w
      else JArr (slice_upto (elements (getActivities None w)) n))"
  by (cases "getActivities None w") (simp_all add: getActivities_Some)

section \<open>The sample record\<close>

lemma iso_shape_sample: "iso_shape ''2025-01-01T00:00:00.000Z''"
  by (simp add: iso_shape_def digits_def)

lemma metadata_empty: "conforms F metadata_schema (JObj [])"
  by (simp add: conforms_def metadata_schema_def declared_def)

lemma sample_valid:
  "validate sample_formats (sample_activity now agent) = (agent \<noteq> [])"
proof -
  have "agent \<noteq> [] \<longleftrightarrow> Suc 0 \<le> length agent" by (cases agent) simp_all
  then show ?thesis
    using metadata_empty [of sample_formats]
    by (simp add: validate_def conforms_def schema_def declared_def sample_activity_def
        sample_formats_def iso_shape_sample type_enum_def status_enum_def)
qed

lemma sample_candidate:
  "activity_of now ''2025-01-01T00:00:00.000Z'' (VStr agent) (VStr ''Fixed syntax error'')
     (VStr ''commit'') VUndefined VUndefined = of_json (sample_activity now agent)"
  by (simp add: activity_of_def or_default_def sample_activity_def)

lemma sample_world:
  "getActivities None (snd (sample_log now agent fresh))
     = (if agent = [] then JArr [] else JArr [sample_activity now agent])"
  "fst (sample_log now agent fresh) = (agent \<noteq> [])"
proof -
  have e: "getActivities None fresh = JArr []"
    by (simp add: fresh_def getActivities_def getItem_def)
  show "getActivities None (snd (sample_log now agent fresh))
     = (if agent = [] then JArr [] else JArr [sample_activity now agent])"
    unfolding sample_log_def
    by (simp add: logActivity_valid logActivity_invalid sample_candidate validate_of_json
        serializable_of_json written_of_json sample_valid e
        getActivities_setItem getActivities_dispatchEvent MAX_ACTIVITIES_def)
  show "fst (sample_log now agent fresh) = (agent \<noteq> [])"
    unfolding sample_log_def
    by (simp add: logActivity_success sample_candidate validate_of_json
        serializable_of_json sample_valid e)
qed


section \<open>What the schema asks of a candidate\<close>

lemma one_le_length: "(Suc 0 \<le> length s) = (s \<noteq> [])"
  by (cases s) simp_all

lemma defined_Cons:
  "defined [] n = None"
  "defined ((k, v) # fs) n =
     (if n = k then (if v = VUndefined then None else Some v) else defined fs n)"
  by (cases v; simp add: defined_def)+

lemma or_default_defined:
  "or_default v (VStr s) \<noteq> VUndefined" "or_default v (VObj fs) \<noteq> VUndefined"
  by (simp_all add: or_default_def)

lemma keyword_holds_Properties:
  "keyword_holds F ds (VObj fs) (Properties ps) =
     list_all (\<lambda>(n, sub). case defined fs n of None \<Rightarrow> True | Some x \<Rightarrow> conforms_value F sub x) ps"
  unfolding conforms_value_def by simp

lemma conforms_value_text:
  "conforms_value F [Type [TString], MinLength 1] x = (\<exists>s. x = VStr s \<and> s \<noteq> [])"
  "conforms_value F [Type [TString], MinLength (Suc 0)] x = (\<exists>s. x = VStr s \<and> s \<noteq> [])"
  by (cases x; simp add: conforms_value_def one_le_length)+

lemma conforms_value_enum:
  "conforms_value F [Type [TString], Enum (map JStr ks)] x = (\<exists>s. x = VStr s \<and> s \<in> set ks)"
  by (cases x) (auto simp: conforms_value_def)

lemma conforms_value_id: "conforms_value F [Type [TNumber, TString]] (VNum n)"
  by (simp add: conforms_value_def)

lemma conforms_value_stamp: "conforms_value F [Type [TString], Format f] (VStr s) = F f s"
  by (simp add: conforms_value_def)

lemma validate_value_object:
  "validate_value F (VObj fs) =
     (list_all (\<lambda>n. defined fs n \<noteq> None)
        [''id'', ''timestamp'', ''agent'', ''action'', ''type'', ''status'']
      \<and> list_all (\<lambda>(n, sub). case defined fs n of None \<Rightarrow> True | Some x \<Rightarrow> conforms_value F sub x)
          [(''id'', [Type [TNumber, TString]]),
           (''timestamp'', [Type [TString], Format ''date-time'']),
           (''agent'', [Type [TString], MinLength 1]),
           (''action'', [Type [TString], MinLength 1]),
           (''type'', [Type [TString], Enum (map JStr type_enum)]),
           (''status'', [Type [TString], Enum (map JStr status_enum)]),
           (''metadata'', metadata_schema)]
      \<and> list_all (\<lambda>(n, x). n \<in> set [''id'', ''timestamp'', ''agent'', ''action'', ''type'',
                                      ''status'', ''metadata'']) fs)"
proof -
  have "validate_value F (VObj fs) = list_all (keyword_holds F (declared schema) (VObj fs)) schema"
    by (simp add: validate_value_def conforms_value_def)
  also have "declared schema = [''id'', ''timestamp'', ''agent'', ''action'', ''type'',
      ''status'', ''metadata'']"
    by (simp add: declared_def schema_def)
  finally show ?thesis
    unfolding schema_def
    by (simp only: list.pred_inject keyword_holds_Properties keyword_holds.simps(1,2,4)) simp
qed

lemma schema_gate:
  "validate_value F (activity_of now stamp agent action type status metadata) =
     (F ''date-time'' stamp
      \<and> (\<exists>s. agent = VStr s \<and> s \<noteq> [])
      \<and> (\<exists>s. action = VStr s \<and> s \<noteq> [])
      \<and> (\<exists>s. or_default type (VStr ''info'') = VStr s \<and> s \<in> set type_enum)
      \<and> (\<exists>s. or_default status (VStr ''success'') = VStr s \<and> s \<in> set status_enum)
      \<and> conforms_value F metadata_schema (or_default metadata (VObj [])))"
  by (cases "agent = VUndefined"; cases "action = VUndefined")
    (simp_all add: activity_of_def validate_value_object defined_Cons or_default_defined
      conforms_value_text conforms_value_enum conforms_value_id conforms_value_stamp)

section \<open>Append: the schema gate\<close>




text \<open>
  The same happens when the metadata contain themselves, as after
  \<^verbatim>\<open>metadata.self = metadata\<close>.
\<close>

lemma circular_metadata_not_persisted:
  "validate_value sample_formats
     (activity_of 1 ''2025-01-01T00:00:00.000Z'' (VStr ''Claude'') (VStr ''Fixed syntax error'')
        (VStr ''commit'') VUndefined (VObj [(''self'', VCircular)]))
   \<and> logActivity sample_formats 1 ''2025-01-01T00:00:00.000Z'' (VStr ''Claude'')
        (VStr ''Fixed syntax error'') (VStr ''commit'') VUndefined
        (VObj [(''self'', VCircular)]) fresh
      = (False, fresh)"
proof -
  have m: "conforms_value sample_formats metadata_schema (VObj [(''self'', VCircular)])"
    by (simp add: conforms_value_def metadata_schema_def declared_def defined_def)
  have "\<not> serializable
     (activity_of 1 ''2025-01-01T00:00:00.000Z'' (VStr ''Claude'') (VStr ''Fixed syntax error'')
        (VStr ''commit'') VUndefined (VObj [(''self'', VCircular)]))"
    by (simp add: serializable_def activity_of_def or_default_def)
  with m show ?thesis
    by (simp add: logActivity_unserializable schema_gate sample_formats_def iso_shape_sample
        or_default_def type_enum_def status_enum_def)
qed

text \<open>
  A number that is not finite passes the schema as a number and is written \<^verbatim>\<open>null\<close>:
  with the metadata \<^verbatim>\<open>{duration: Infinity}\<close>, \<^verbatim>\<open>log\<close> returns true and the record it
  stores does not pass the schema.
\<close>

lemma infinite_duration_stored_as_null:
  "fst (logActivity sample_formats 1 ''2025-01-01T00:00:00.000Z'' (VStr ''Claude'')
        (VStr ''Fixed syntax error'') (VStr ''commit'') VUndefined
        (VObj [(''duration'', VNum Infinity)]) fresh)
   \<and> getActivities None
        (snd (logActivity sample_formats 1 ''2025-01-01T00:00:00.000Z'' (VStr ''Claude'')
           (VStr ''Fixed syntax error'') (VStr ''commit'') VUndefined
           (VObj [(''duration'', VNum Infinity)]) fresh))
      = JArr [JObj [(''id'', JNum 1),
                    (''timestamp'', JStr ''2025-01-01T00:00:00.000Z''),
                    (''agent'', JStr ''Claude''),
                    (''action'', JStr ''Fixed syntax error''),
                    (''type'', JStr ''commit''),
                    (''status'', JStr ''success''),
                    (''metadata'', JObj [(''duration'', JNull)])]]
   \<and> \<not> validate sample_formats
          (JObj [(''id'', JNum 1),
                 (''timestamp'', JStr ''2025-01-01T00:00:00.000Z''),
                 (''agent'', JStr ''Claude''),
                 (''action'', JStr ''Fixed syntax error''),
                 (''type'', JStr ''commit''),
                 (''status'', JStr ''success''),
                 (''metadata'', JObj [(''duration'', JNull)])])"
proof -
  let ?a = "activity_of 1 ''2025-01-01T00:00:00.000Z'' (VStr ''Claude'')
        (VStr ''Fixed syntax error'') (VStr ''commit'') VUndefined
        (VObj [(''duration'', VNum Infinity)])"
  have e: "getActivities None fresh = JArr []"
    by (simp add: fresh_def getActivities_def getItem_def)
  have m: "conforms_value sample_formats metadata_schema (VObj [(''duration'', VNum Infinity)])"
    by (simp add: conforms_value_def metadata_schema_def declared_def defined_def)
  have v: "validate_value sample_formats ?a"
    using m by (simp add: schema_gate sample_formats_def iso_shape_sample
        or_default_def type_enum_def status_enum_def)
  have s: "serializable ?a"
    by (simp add: serializable_def activity_of_def or_default_def)
  have w: "written ?a = JObj [(''id'', JNum 1),
                    (''timestamp'', JStr ''2025-01-01T00:00:00.000Z''),
                    (''agent'', JStr ''Claude''),
                    (''action'', JStr ''Fixed syntax error''),
                    (''type'', JStr ''commit''),
                    (''status'', JStr ''success''),
                    (''metadata'', JObj [(''duration'', JNull)])]"
    by (simp add: written_def activity_of_def or_default_def)
  have n: "\<not> conforms sample_formats metadata_schema (JObj [(''duration'', JNull)])"
    by (simp add: conforms_def metadata_schema_def declared_def)
  have i: "\<not> validate sample_formats
          (JObj [(''id'', JNum 1),
                 (''timestamp'', JStr ''2025-01-01T00:00:00.000Z''),
                 (''agent'', JStr ''Claude''),
                 (''action'', JStr ''Fixed syntax error''),
                 (''type'', JStr ''commit''),
                 (''status'', JStr ''success''),
                 (''metadata'', JObj [(''duration'', JNull)])])"
    using n by (simp add: validate_def conforms_def schema_def declared_def)
  from v s w i show ?thesis
    by (simp add: logActivity_valid logActivity_success e getActivities_setItem
        getActivities_dispatchEvent MAX_ACTIVITIES_def)
qed

section \<open>Append: the notification\<close>

text \<open>
  C9. For every successful append (\<^verbatim>\<open>log\<close> returns true), the \<^verbatim>\<open>codedao:activity\<close> event
  is the last thing the call does before it returns: the event is in the returned world,
  dispatched over the storage the call leaves behind, that is, after the write and with
  no write after it. A listener that calls \<^verbatim>\<open>getActivities()\<close> while it handles the event
  reads the new collection, with the appended record in front: the candidate as
  \<^verbatim>\<open>JSON.stringify\<close> wrote it, which is the candidate itself when it is a JSON value.
\<close>

theorem notification_follows_write:
  assumes "fst (logActivity F now stamp agent action type status metadata w)"
  shows "(let a = activity_of now stamp agent action type status metadata;
              w' = snd (logActivity F now stamp agent action type status metadata w)
          in dispatched w'
               = dispatched w @ [(CustomEvent ''codedao:activity'' (Some a), localStorage w')]
             \<and> serialize a = Inr (Some (written a))
             \<and> observed (localStorage w')
                 = JArr (take MAX_ACTIVITIES (written a # elements (getActivities None w)))
             \<and> hd (elements (observed (localStorage w'))) = written a
             \<and> (\<forall>j. a = of_json j \<longrightarrow> hd (elements (observed (localStorage w'))) = j))"
proof -
  from assms have v: "validate_value F (activity_of now stamp agent action type status metadata)"
    and s: "serializable (activity_of now stamp agent action type status metadata)"
    and arr: "is_array (getActivities None w)"
    by (simp_all add: logActivity_success)
  from s have "serialize (activity_of now stamp agent action type status metadata)
     = Inr (Some (written (activity_of now stamp agent action type status metadata)))"
    by (rule candidate_written)
  then show ?thesis
    by (auto simp: logActivity_valid [OF v s arr] dispatched_dispatchEvent observed_storage
        getActivities_setItem getActivities_dispatchEvent MAX_ACTIVITIES_def Let_def
        written_of_json)
qed

theorem notification_follows_write_witness:
  "fst (sample_log 1 ''Claude'' fresh)
   \<and> dispatched (snd (sample_log 1 ''Claude'' fresh))
       = [(CustomEvent ''codedao:activity'' (Some (of_json (sample_activity 1 ''Claude''))),
           localStorage (snd (sample_log 1 ''Claude'' fresh)))]
   \<and> observed (localStorage (snd (sample_log 1 ''Claude'' fresh)))
       = JArr [sample_activity 1 ''Claude'']"
proof -
  have e: "getActivities None fresh = JArr []"
    by (simp add: fresh_def getActivities_def getItem_def)
  have d: "dispatched fresh = []" by (simp add: fresh_def)
  have s: "fst (sample_log 1 ''Claude'' fresh)"
    by (simp add: sample_world)
  from notification_follows_write [OF s [unfolded sample_log_def]] s show ?thesis
    by (simp add: Let_def sample_log_def sample_candidate written_of_json e d
        MAX_ACTIVITIES_def)
qed

section \<open>Import\<close>

text \<open>
  C10. Text that parses as JSON but not as an array (an object, a number, a string, a
  boolean, \<^verbatim>\<open>null\<close>) makes \<^verbatim>\<open>importActivities\<close> return false in an unchanged world:
  nothing written, no event.
\<close>

theorem import_rejects_non_array:
  assumes "\<not> is_array v"
  shows "JSON_parse (Json v) = Inr v \<and> importActivities F (Json v) w = (False, w)"
  using assms by (simp add: JSON_parse_def importActivities_not_array)

theorem import_rejects_non_array_witness:
  "\<not> is_array (JObj []) \<and> \<not> is_array (JNum 5)
   \<and> importActivities sample_formats (Json (JObj [])) fresh = (False, fresh)
   \<and> importActivities sample_formats (Json (JNum 5)) fresh = (False, fresh)"
  using import_rejects_non_array [of "JObj []" sample_formats fresh]
    import_rejects_non_array [of "JNum 5" sample_formats fresh]
  by simp




text \<open>
  C7. When the stored collection is an array of records that all pass the schema,
  importing what \<^verbatim>\<open>exportActivities\<close> returns succeeds and the unlimited query returns
  the same records in the same order as before.
\<close>

theorem export_import_round_trip:
  assumes "is_array (getActivities None w)"
    and "list_all (validate F) (elements (getActivities None w))"
  shows "fst (importActivities F (exportActivities w) w) = True
         \<and> getActivities None (snd (importActivities F (exportActivities w) w))
             = getActivities None w"
proof -
  from assms(1) obtain xs where xs: "getActivities None w = JArr xs"
    by (cases "getActivities None w") simp_all
  with assms(2) have "filter (validate F) xs = xs"
    by (simp add: list_all_iff)
  with xs show ?thesis
    by (simp add: exportActivities_def JSON_stringify_def importActivities_array
        getActivities_setItem getActivities_dispatchEvent)
qed

theorem export_import_round_trip_witness:
  "is_array (getActivities None (snd (sample_log 1 ''Claude'' fresh)))
   \<and> list_all (validate sample_formats)
        (elements (getActivities None (snd (sample_log 1 ''Claude'' fresh))))
   \<and> fst (importActivities sample_formats (exportActivities (snd (sample_log 1 ''Claude'' fresh)))
        (snd (sample_log 1 ''Claude'' fresh)))
   \<and> getActivities None
        (snd (importActivities sample_formats
           (exportActivities (snd (sample_log 1 ''Claude'' fresh)))
           (snd (sample_log 1 ''Claude'' fresh))))
       = JArr [sample_activity 1 ''Claude'']"
  using export_import_round_trip [of "snd (sample_log 1 ''Claude'' fresh)" sample_formats]
  by (simp add: sample_world sample_valid)

section \<open>The maximum\<close>

text \<open>
  A successful append leaves at most \<open>MAX_ACTIVITIES\<close> records, whatever was stored
  before: the new record and the newest of the old ones.
\<close>

lemma log_within_maximum:
  assumes "fst (logActivity F now stamp agent action type status metadata w)"
  shows "length (elements (getActivities None
           (snd (logActivity F now stamp agent action type status metadata w))))
         = min MAX_ACTIVITIES (Suc (length (elements (getActivities None w))))"
  using assms
  by (simp add: logActivity_success logActivity_valid getActivities_setItem
      getActivities_dispatchEvent)

text \<open>
  C1 does not hold of \<^verbatim>\<open>importActivities\<close>, which stores every valid record of the batch:
  from the empty store, importing 1001 valid records returns true and leaves 1001 records
  stored, one more than \<open>MAX_ACTIVITIES\<close>.
\<close>

theorem import_exceeds_maximum:
  "fst (importActivities sample_formats (Json (JArr (sample_batch 1001))) fresh) = True
   \<and> length (elements (getActivities None
        (snd (importActivities sample_formats (Json (JArr (sample_batch 1001))) fresh)))) = 1001
   \<and> MAX_ACTIVITIES = 1000"
proof -
  have "filter (validate sample_formats) (sample_batch 1001) = sample_batch 1001"
    by (simp add: sample_batch_def sample_valid)
  then show ?thesis
    by (simp add: importActivities_array getActivities_setItem getActivities_dispatchEvent
        JSON_stringify_def MAX_ACTIVITIES_def) (simp add: sample_batch_def)
qed

section \<open>Query\<close>

text \<open>
  A positive limit returns that many of the newest records (all, if there are fewer), and
  a slot that does not parse reads as the empty array.
\<close>

lemma query_limit_positive:
  assumes "is_array (getActivities None w)" and "0 < n"
  shows "getActivities (Some n) w = JArr (take (nat n) (elements (getActivities None w)))"
  using assms by (simp add: getActivities_limited slice_upto_def)

lemma query_unreadable:
  "localStorage w STORAGE_KEY = Some Garbled \<Longrightarrow> getActivities limit w = JArr []"
  by (simp add: getActivities_def getItem_def JSON_parse_def)

text \<open>
  C4 does not hold for the limit 0: \<^verbatim>\<open>getActivities(0)\<close> takes the branch of the absent
  limit and returns the whole collection, here the one stored record.
\<close>

theorem limit_zero_returns_all:
  "getActivities (Some 0) (snd (sample_log 1 ''Claude'' fresh)) = JArr [sample_activity 1 ''Claude'']"
  by (simp add: getActivities_Some sample_world)

section \<open>Order\<close>

lemma log_call_success:
  "fst (log_call F c w) =
     (validate_value F (candidate c) \<and> serializable (candidate c)
      \<and> is_array (getActivities None w))"
  by (cases c) (simp add: log_call_def candidate_def logActivity_success)

lemma log_call_records:
  "is_array (getActivities None w) \<Longrightarrow>
   getActivities None (snd (log_call F c w)) =
     (if validate_value F (candidate c) \<and> serializable (candidate c)
      then JArr (take MAX_ACTIVITIES (record_of c # elements (getActivities None w)))
      else getActivities None w)"
  by (cases c) (simp add: log_call_def candidate_def record_of_def logActivity_records)

lemma take_append_take: "take n (xs @ take n ys) = take n (xs @ ys)"
  by (simp add: min_def)

lemma appends_records:
  "is_array (getActivities None w) \<Longrightarrow>
   getActivities None (appends F cs w) =
     (if accepted F cs = [] then getActivities None w
      else JArr (take MAX_ACTIVITIES (rev (accepted F cs) @ elements (getActivities None w))))"
proof (induction cs arbitrary: w)
  case Nil
  then show ?case by (simp add: accepted_def)
next
  case (Cons c cs)
  let ?w = "snd (log_call F c w)"
  let ?old = "elements (getActivities None w)"
  from Cons.prems have arr: "is_array (getActivities None ?w)"
    by (simp add: log_call_records)
  note IH = Cons.IH [OF arr]
  show ?case
  proof (cases "validate_value F (candidate c) \<and> serializable (candidate c)")
    case True
    then have acc: "accepted F (c # cs) = record_of c # accepted F cs"
      by (simp add: accepted_def)
    from True Cons.prems have w': "getActivities None ?w = JArr (take MAX_ACTIVITIES (record_of c # ?old))"
      by (simp add: log_call_records)
    show ?thesis
    proof (cases "accepted F cs = []")
      case True
      with IH w' acc show ?thesis by simp
    next
      case False
      with IH w' have "getActivities None (appends F (c # cs) w)
          = JArr (take MAX_ACTIVITIES (rev (accepted F cs) @ take MAX_ACTIVITIES (record_of c # ?old)))"
        by simp
      then show ?thesis
        by (simp only: take_append_take acc) simp
    qed
  next
    case False
    then have "accepted F (c # cs) = accepted F cs" by (auto simp: accepted_def)
    with False Cons.prems IH show ?thesis
      by (auto simp: log_call_records)
  qed
qed

lemma sample_call_candidate:
  "candidate (sample_call now agent) = of_json (sample_activity now agent)"
  by (simp add: candidate_def sample_call_def sample_candidate)

lemma sample_call_record:
  "record_of (sample_call now agent) = sample_activity now agent"
  "serializable (candidate (sample_call now agent))"
  "validate_value sample_formats (candidate (sample_call now agent)) = (agent \<noteq> [])"
  by (simp_all add: record_of_def sample_call_candidate written_of_json serializable_of_json
      validate_of_json sample_valid)

lemma two_appends_records:
  "getActivities None two_appends = JArr [sample_activity 2 ''ChatGPT'', sample_activity 1 ''Claude'']"
proof -
  have e: "getActivities None fresh = JArr []"
    by (simp add: fresh_def getActivities_def getItem_def)
  have "accepted sample_formats [sample_call 1 ''Claude'', sample_call 2 ''ChatGPT'']
          = [sample_activity 1 ''Claude'', sample_activity 2 ''ChatGPT'']"
    by (simp add: accepted_def sample_call_record)
  then show ?thesis
    using appends_records [of fresh sample_formats
        "[sample_call 1 ''Claude'', sample_call 2 ''ChatGPT'']"]
    by (simp add: two_appends_def e MAX_ACTIVITIES_def del: appends.simps)
qed

text \<open>
  C5, as the code has it. Take a successful append A, later a successful append B, and
  only calls of \<^verbatim>\<open>log\<close> between them and after them. Then the stored collection is the
  first \<open>MAX_ACTIVITIES\<close> of: the records accepted after B, newest first, then B, then
  the records accepted between A and B, newest first, then A, then what was stored before
  A. So B stands strictly before A: B at the position that counts the later accepted
  records, A further down, each as long as its position is below \<open>MAX_ACTIVITIES\<close>.
  Every successful append puts its record in front, and a run of appends keeps the
  collection newest first. The record of an append is its candidate as
  \<^verbatim>\<open>JSON.stringify\<close> wrote it, which is the candidate itself when it is a JSON value.
  (The claim as written says that every operation keeps this order;
  \<^verbatim>\<open>importActivities\<close> stores its batch in the order of the batch, see the
  counterexample below.)
\<close>

theorem later_append_comes_first:
  assumes "fst (log_call F a w)"
    and "fst (log_call F b (appends F (a # mid) w))"
  shows "(let xs = elements (getActivities None (appends F (a # mid @ b # post) w));
              i = length (accepted F post);
              j = i + 1 + length (accepted F mid)
          in xs = take MAX_ACTIVITIES
                    (rev (accepted F post) @ record_of b # rev (accepted F mid) @ record_of a
                       # elements (getActivities None w))
             \<and> i < j
             \<and> (i < MAX_ACTIVITIES \<longrightarrow> xs ! i = record_of b)
             \<and> (j < MAX_ACTIVITIES \<longrightarrow> xs ! j = record_of a))
         \<and> (\<forall>x. candidate a = of_json x \<longrightarrow> record_of a = x)
         \<and> (\<forall>x. candidate b = of_json x \<longrightarrow> record_of b = x)"
proof -
  from assms have va: "validate_value F (candidate a) \<and> serializable (candidate a)"
    and arr: "is_array (getActivities None w)"
    and vb: "validate_value F (candidate b) \<and> serializable (candidate b)"
    by (simp_all add: log_call_success)
  let ?old = "elements (getActivities None w)"
  let ?all = "rev (accepted F post) @ record_of b # rev (accepted F mid) @ record_of a # ?old"
  let ?i = "length (accepted F post)"
  let ?j = "?i + 1 + length (accepted F mid)"
  have acc: "accepted F (a # mid @ b # post)
               = record_of a # accepted F mid @ record_of b # accepted F post"
    using va vb by (simp add: accepted_def)
  have xs: "elements (getActivities None (appends F (a # mid @ b # post) w))
              = take MAX_ACTIVITIES ?all"
    using appends_records [OF arr, of F "a # mid @ b # post"] by (simp add: acc)
  have i: "?all ! ?i = record_of b"
    by (simp add: nth_append)
  have j: "?all ! ?j = record_of a"
    by (simp add: nth_append)
  have "?i < MAX_ACTIVITIES \<longrightarrow> take MAX_ACTIVITIES ?all ! ?i = record_of b"
    using i nth_take [of ?i MAX_ACTIVITIES ?all] by metis
  moreover have "?j < MAX_ACTIVITIES \<longrightarrow> take MAX_ACTIVITIES ?all ! ?j = record_of a"
    using j nth_take [of ?j MAX_ACTIVITIES ?all] by metis
  ultimately have "(let xs = elements (getActivities None (appends F (a # mid @ b # post) w));
              i = length (accepted F post);
              j = i + 1 + length (accepted F mid)
          in xs = take MAX_ACTIVITIES ?all
             \<and> i < j
             \<and> (i < MAX_ACTIVITIES \<longrightarrow> xs ! i = record_of b)
             \<and> (j < MAX_ACTIVITIES \<longrightarrow> xs ! j = record_of a))"
    unfolding Let_def xs by simp
  moreover have "record_of c = x" if "candidate c = of_json x" for c x
    by (simp add: record_of_def that written_of_json)
  ultimately show ?thesis by blast
qed

theorem later_append_comes_first_witness:
  "fst (log_call sample_formats (sample_call 1 ''Claude'') fresh)
   \<and> fst (log_call sample_formats (sample_call 2 ''ChatGPT'')
         (appends sample_formats [sample_call 1 ''Claude''] fresh))
   \<and> elements (getActivities None two_appends)
       = [record_of (sample_call 2 ''ChatGPT''), record_of (sample_call 1 ''Claude'')]
   \<and> elements (getActivities None two_appends) ! 0 = record_of (sample_call 2 ''ChatGPT'')
   \<and> elements (getActivities None two_appends) ! 1 = record_of (sample_call 1 ''Claude'')"
proof -
  have e: "getActivities None fresh = JArr []"
    by (simp add: fresh_def getActivities_def getItem_def)
  have a: "fst (log_call sample_formats (sample_call 1 ''Claude'') fresh)"
    by (simp add: log_call_success sample_call_record e)
  have b: "fst (log_call sample_formats (sample_call 2 ''ChatGPT'')
         (appends sample_formats [sample_call 1 ''Claude''] fresh))"
    by (simp add: log_call_success sample_call_record e log_call_records)
  from later_append_comes_first [OF a b, of "[]"] a b show ?thesis
    by (simp add: Let_def accepted_def e MAX_ACTIVITIES_def two_appends_def del: appends.simps)
qed

text \<open>
  The claim of C5 as written fails after an import: A is appended, then B, and the query
  returns B before A; importing the two records with A first succeeds, and then the query
  returns A before B.
\<close>

theorem import_reorders_counterexample:
  "getActivities None two_appends
     = JArr [sample_activity 2 ''ChatGPT'', sample_activity 1 ''Claude'']
   \<and> fst (importActivities sample_formats
        (Json (JArr [sample_activity 1 ''Claude'', sample_activity 2 ''ChatGPT''])) two_appends)
   \<and> getActivities None (snd (importActivities sample_formats
        (Json (JArr [sample_activity 1 ''Claude'', sample_activity 2 ''ChatGPT''])) two_appends))
     = JArr [sample_activity 1 ''Claude'', sample_activity 2 ''ChatGPT'']"
  by (simp add: two_appends_records importActivities_array getActivities_setItem
      getActivities_dispatchEvent JSON_stringify_def sample_valid)

section \<open>Statistics\<close>

subsection \<open>Array indices and the order of keys\<close>

lemma digits_nth: "n < 10 \<Longrightarrow> digits ! n \<in> set digits"
  by (rule nth_mem) (simp add: digits_def)

lemma numeral_of_digits: "set (numeral_of n) \<subseteq> set digits"
proof (induction n rule: numeral_of.induct)
  case (1 n)
  show ?case
  proof (cases "n < 10")
    case True
    then show ?thesis by (simp add: numeral_of.simps [of n] digits_nth)
  next
    case False
    with 1 show ?thesis by (simp add: numeral_of.simps [of n] digits_nth)
  qed
qed

lemma array_index_digits: "is_array_index k \<Longrightarrow> set k \<subseteq> set digits"
  using numeral_of_digits [of "decimal k"] by (simp add: is_array_index_def)


lemma enum_not_array_index:
  "k \<in> set type_enum \<union> set status_enum \<Longrightarrow> \<not> is_array_index k"
  by (auto simp: type_enum_def status_enum_def digits_def dest!: array_index_digits)















subsection \<open>Valid records have string keys\<close>








lemma sample_keys:
  "key_of (sample_activity now agent) ''agent'' = Inr agent"
  "key_of (sample_activity now agent) ''type'' = Inr ''commit''"
  "key_of (sample_activity now agent) ''status'' = Inr ''success''"
  by (simp_all add: key_of_def and_then_def sample_activity_def)


lemma not_index: "\<not> is_array_index ''commit''" "\<not> is_array_index ''success''"
  "\<not> is_array_index ''constructor''"
  using enum_not_array_index [of "''commit''"] enum_not_array_index [of "''success''"]
    array_index_digits [of "''constructor''"]
  by (auto simp: type_enum_def status_enum_def digits_def)

subsection \<open>What the statistics hold\<close>




text \<open>
  An agent named \<^verbatim>\<open>constructor\<close> is not counted at all: the first read finds the
  inherited method, and what is stored under the name is a string.
\<close>

lemma inherited_name_not_counted:
  "getStatistics inherited_agent =
     Inr \<lparr>total = 1, byAgent = [(''constructor'', Text)],
          byType = [(''commit'', Count 1)], byStatus = [(''success'', Count 1)],
          recentActivity = [sample_activity 1 ''constructor'']\<rparr>"
proof -
  have e: "getActivities None fresh = JArr []"
    by (simp add: fresh_def getActivities_def getItem_def)
  have "getActivities None inherited_agent = JArr [sample_activity 1 ''constructor'']"
    using appends_records [of fresh sample_formats "[sample_call 1 ''constructor'']"]
    by (simp add: inherited_agent_def accepted_def sample_call_record e MAX_ACTIVITIES_def
        del: appends.simps)
  then show ?thesis
    by (simp add: getStatistics_def count_activity_def sample_keys and_then_def bump_def
        assign_def not_index Object_prototype_def slice_upto_def)
qed

end
